theory Spec2Isabelle
  imports Complex_Main "HOL-Library.Word" "HOL-Library.Log_Nat"
begin

section \<open>The bridging script \<^verbatim>\<open>src/sdk-app.ts\<close> as a trace-producing program\<close>

text \<open>
  The script is one sequential flow over external collaborators: the process environment,
  the account derivation of the chain-client library, the read-only chain client, the
  bridging client. Each collaborator is a field of the record \<open>world\<close>; what the script
  does to them is recorded as a list of events, in program order. A JavaScript exception
  (thrown by the script, by the runtime on a property read of \<open>undefined\<close>, or by a
  collaborator) is the \<open>Inl\<close> branch of the result and ends the flow, since the script
  has no \<^verbatim>\<open>try\<close>/\<^verbatim>\<open>catch\<close>.
\<close>

subsection \<open>Data\<close>

record Account =
  address :: string

record Chain =
  chain_id :: nat
  chain_name :: string

text \<open>\<^verbatim>\<open>sepolia\<close> and \<^verbatim>\<open>arbitrumSepolia\<close> of \<^verbatim>\<open>viem/chains\<close>.\<close>

definition sepolia :: Chain where
  "sepolia = \<lparr>chain_id = 11155111, chain_name = ''Sepolia''\<rparr>"

definition arbitrumSepolia :: Chain where
  "arbitrumSepolia = \<lparr>chain_id = 421614, chain_name = ''Arbitrum Sepolia''\<rparr>"

definition originChain :: Chain where
  "originChain = sepolia"

definition destinationChain :: Chain where
  "destinationChain = arbitrumSepolia"

definition originTokenSymbol :: string where
  "originTokenSymbol = ''ETH''"

definition destTokenSymbol :: string where
  "destTokenSymbol = ''WETH''"

record TokenInfo =
  symbol :: string
  tokenAddress :: string

record AcrossChain =
  chainId :: nat
  inputTokens :: "TokenInfo list"
  outputTokens :: "TokenInfo list"

record Route =
  originChainId :: nat
  destinationChainId :: nat
  inputToken :: string
  outputToken :: string

record GetQuoteParams =
  route :: Route
  inputAmount :: nat

text \<open>
  The deposit of a quote: the two amounts the script prints, and the rest of the payload,
  which the script never reads.
\<close>

record Deposit =
  depositInputAmount :: nat
  depositOutputAmount :: nat
  depositRest :: string

record Quote =
  deposit :: Deposit
  totalRelayFee :: nat
  estimatedFillTimeSec :: "nat option"

record WalletClient =
  walletAccount :: Account
  walletChain :: Chain

text \<open>
  A transaction receipt of the chain client. Its numeric fields, the block number among
  them, are JavaScript bigints.
\<close>

record TransactionReceipt =
  transactionHash :: string
  blockNumber :: nat

text \<open>
  A progress notification: the step and status strings, and the payload fields the observer
  destructures (absent fields read as \<open>None\<close>). The deposit id and the fill timestamp are
  bigints.
\<close>

record ExecutionProgress =
  step :: string
  status :: string
  txReceipt :: "TransactionReceipt option"
  depositId :: "nat option"
  fillTxTimestamp :: "nat option"
  actionSuccess :: "bool option"

text \<open>
  The terminal result of the execution. Its \<^verbatim>\<open>error\<close> field, when present, is an
  \<^verbatim>\<open>Error\<close> object (here its message), which is truthy whatever the message. The
  deposit id is a bigint; the two receipts are those of the deposit and of the fill.
\<close>

record ExecuteQuoteResponseParams =
  resultError :: "string option"
  resultDepositId :: "nat option"
  depositTxReceipt :: "TransactionReceipt option"
  fillTxReceipt :: "TransactionReceipt option"

text \<open>
  What \<^verbatim>\<open>client.executeQuote\<close> does with the observer it is given, as seen from the
  script: it resolves to a result, or rejects, or delivers a notification to the observer
  and goes on in one way when the observer returns and in another when the observer
  throws.
\<close>

datatype execution =
    Resolve ExecuteQuoteResponseParams
  | Reject string
  | Notify ExecutionProgress execution execution

datatype error =
    InsufficientFundsError
  | TypeError string
  | LibraryError string

datatype log_line =
    LoadedInfuraKey "string option"
  | LoadedPubKey "string option"
  | LoadedPK "string option"
  | OriginChainSelected string
  | DestinationChainSelected string
  | ValidatingBalance "string option"
  | WeiBalance "256 word"
  | BalanceInEth rat
  | InsufficientFundsExiting
  | RequestingQuote
  | QuoteReceived
  | YouSend rat string
  | YouReceive rat string
  | BridgeFee rat
  | EstimatedTime "nat option"
  | StepFailed string string
  | ApprovalReceipt "TransactionReceipt option"
  | DepositIdReceived "nat option"
  | OrderFilled "nat option"
  | UnknownStep ExecutionProgress
  | BridgeFailed string
  | BridgeResult ExecuteQuoteResponseParams

datatype event =
    Log log_line
  | GetBalance "string option"
  | CreateAcrossClient
  | GetSupportedChains
  | GetQuote GetQuoteParams
  | ExecuteQuote WalletClient Deposit

text \<open>
  The collaborators. A call that throws or whose promise rejects answers \<open>Inl\<close> with the
  message. \<open>executeQuote\<close> answers the course of the execution for the wallet client and
  the deposit it is given.
\<close>

record world =
  INFURA_PROJECT_KEY :: "string option"
  PUBLIC_KEY :: "string option"
  PRIVATE_KEY :: "string option"
  privateKeyToAccount :: "string \<Rightarrow> string + Account"
  getBalance :: "string option \<Rightarrow> string + 256 word"
  getSupportedChains :: "string + AcrossChain list"
  getQuoteRequest :: "GetQuoteParams \<Rightarrow> string + Quote"
  executeQuote :: "WalletClient \<Rightarrow> Deposit \<Rightarrow> execution"

subsection \<open>Sequencing with a trace and exceptions\<close>

type_synonym 'a res = "event list \<times> (error + 'a)"

definition ret :: "'a \<Rightarrow> 'a res" where
  "ret a = ([], Inr a)"

definition throw :: "error \<Rightarrow> 'a res" where
  "throw e = ([], Inl e)"

definition emit :: "event \<Rightarrow> unit res" where
  "emit ev = ([ev], Inr ())"

definition console_log :: "log_line \<Rightarrow> unit res" where
  "console_log l = emit (Log l)"

definition call :: "string + 'a \<Rightarrow> 'a res" where
  "call r = (case r of Inl m \<Rightarrow> throw (LibraryError m) | Inr a \<Rightarrow> ret a)"

definition andThen :: "'a res \<Rightarrow> ('a \<Rightarrow> 'b res) \<Rightarrow> 'b res" where
  "andThen m f =
     (case m of
        (t, Inl e) \<Rightarrow> (t, Inl e)
      | (t, Inr a) \<Rightarrow> (case f a of (t', r) \<Rightarrow> (t @ t', r)))"

text \<open>The events \<open>t\<close>, then what \<open>m\<close> does.\<close>

definition prepend :: "event list \<Rightarrow> 'a res \<Rightarrow> 'a res" where
  "prepend t m = (t @ fst m, snd m)"

text \<open>A property read on the result of \<^verbatim>\<open>Array.prototype.find\<close>: a miss is \<^verbatim>\<open>undefined\<close>,
  and reading a property of it throws a \<^verbatim>\<open>TypeError\<close> naming the property.\<close>

definition readProp :: "string \<Rightarrow> 'a option \<Rightarrow> ('a \<Rightarrow> 'b) \<Rightarrow> 'b res" where
  "readProp prop obj sel =
     (case obj of None \<Rightarrow> throw (TypeError prop) | Some x \<Rightarrow> ret (sel x))"

subsection \<open>Ether units and JavaScript numbers\<close>

text \<open>
  \<^verbatim>\<open>formatEther\<close> prints a wei amount as the exact decimal with 18 fractional digits; the
  model keeps the rational number that the string denotes.
\<close>

definition formatEther :: "nat \<Rightarrow> rat" where
  "formatEther wei = of_nat wei / 10 ^ 18"

text \<open>
  \<^verbatim>\<open>parseEther\<close> on an unsigned decimal string: the digits before the point, and at most
  18 digits after it, padded with zeros.
\<close>

definition digitVal :: "char \<Rightarrow> nat option" where
  "digitVal c =
     (if c \<in> set ''0123456789'' then Some (of_char c - of_char CHR ''0'') else None)"

fun digitsVal :: "nat \<Rightarrow> string \<Rightarrow> nat option" where
  "digitsVal acc [] = Some acc"
| "digitsVal acc (c # cs) =
     (case digitVal c of None \<Rightarrow> None | Some d \<Rightarrow> digitsVal (10 * acc + d) cs)"

definition parseEther :: "string \<Rightarrow> nat option" where
  "parseEther s =
     (let whole = takeWhile (\<lambda>c. c \<noteq> CHR ''.'') s;
          rest = dropWhile (\<lambda>c. c \<noteq> CHR ''.'') s;
          frac = (case rest of [] \<Rightarrow> [] | _ # fs \<Rightarrow> fs)
      in if length frac > 18 then None
         else (case digitsVal 0 whole of
                 None \<Rightarrow> None
               | Some w \<Rightarrow>
                  (case digitsVal 0 (frac @ replicate (18 - length frac) CHR ''0'') of
                     None \<Rightarrow> None
                   | Some f \<Rightarrow> Some (w * 10 ^ 18 + f))))"

text \<open>
  \<^verbatim>\<open>Number(s)\<close> on a decimal string, and a decimal literal such as \<^verbatim>\<open>0.01\<close>, are the
  binary64 number nearest to the decimal, ties to the even significand. For a positive
  \<open>x\<close> in the binade of exponent \<open>e\<close> (from \<open>2 powi e\<close> up to, not including,
  \<open>2 powi (e + 1)\<close>) that is \<open>x\<close> rounded to a multiple of \<open>2 powi (e - 52)\<close>. A balance
  is an unsigned 256-bit quantity of wei, so the decimals met here are \<open>0\<close> or lie
  between \<open>1 / 10 ^ 18\<close> and \<open>2 ^ 256 / 10 ^ 18\<close>, inside the normal range of binary64:
  the model has no case for a negative number, an underflow or an overflow.
\<close>

definition roundHalfEven :: "rat \<Rightarrow> int" where
  "roundHalfEven x =
     (let f = \<lfloor>x\<rfloor>; d = x - of_int f
      in if d < 1 / 2 then f
         else if 1 / 2 < d then f + 1
         else if even f then f else f + 1)"

definition ilog2 :: "rat \<Rightarrow> int" where
  "ilog2 x =
     (case quotient_of x of
        (p, q) \<Rightarrow> (let d = bitlen p - bitlen q in if 2 powi d \<le> x then d else d - 1))"

definition Number :: "rat \<Rightarrow> rat" where
  "Number x =
     (if x \<le> 0 then 0
      else let e = ilog2 x
           in of_int (roundHalfEven (x * 2 powi (52 - e))) * 2 powi (e - 52))"

subsection \<open>The script\<close>

text \<open>\<^verbatim>\<open>getPubKey\<close>: the environment variable as it is, \<^verbatim>\<open>undefined\<close> when unset.\<close>

definition getPubKey :: "world \<Rightarrow> string option" where
  "getPubKey W = PUBLIC_KEY W"

definition getPK :: "Account \<Rightarrow> string" where
  "getPK account = address account"

definition preValidate :: "world \<Rightarrow> unit res" where
  "preValidate W =
     andThen (console_log (ValidatingBalance (getPubKey W))) (\<lambda>_.
     andThen (emit (GetBalance (getPubKey W))) (\<lambda>_.
     andThen (call (getBalance W (getPubKey W))) (\<lambda>weiBalance.
     andThen (console_log (WeiBalance weiBalance)) (\<lambda>_.
     (let ethBalance = formatEther (unat weiBalance) in
     andThen (console_log (BalanceInEth ethBalance)) (\<lambda>_.
     if Number ethBalance < Number (1 / 100)
     then andThen (console_log InsufficientFundsExiting) (\<lambda>_. throw InsufficientFundsError)
     else ret ()))))))"

definition getQuote :: "world \<Rightarrow> Quote res" where
  "getQuote W =
     andThen (emit GetSupportedChains) (\<lambda>_.
     andThen (call (getSupportedChains W)) (\<lambda>chains.
     (let originAcrossChain = find (\<lambda>x. chainId x = chain_id originChain) chains in
     andThen (readProp ''inputTokens'' originAcrossChain inputTokens) (\<lambda>originInputTokens.
     (let originTokenInfo = find (\<lambda>x. symbol x = originTokenSymbol) originInputTokens;
          destinationAcrossChain = find (\<lambda>x. chainId x = chain_id destinationChain) chains in
     andThen (readProp ''inputTokens'' destinationAcrossChain inputTokens) (\<lambda>destInputTokens.
     (let destinationTokenInfo = find (\<lambda>x. symbol x = destTokenSymbol) destInputTokens in
     andThen (readProp ''address'' originTokenInfo tokenAddress) (\<lambda>inputTokenAddress.
     andThen (readProp ''address'' destinationTokenInfo tokenAddress) (\<lambda>outputTokenAddress.
     andThen (case parseEther ''0.0002'' of
                None \<Rightarrow> throw (LibraryError ''invalid decimal string'')
              | Some a \<Rightarrow> ret a) (\<lambda>amount.
     (let intent = \<lparr>route = \<lparr>originChainId = chain_id originChain,
                                destinationChainId = chain_id destinationChain,
                                inputToken = inputTokenAddress,
                                outputToken = outputTokenAddress\<rparr>,
                       inputAmount = amount\<rparr> in
     andThen (console_log RequestingQuote) (\<lambda>_.
     andThen (emit (GetQuote intent)) (\<lambda>_.
     andThen (call (getQuoteRequest W intent)) (\<lambda>quote.
     andThen (console_log QuoteReceived) (\<lambda>_.
     andThen (console_log (YouSend (formatEther (depositInputAmount (deposit quote)))
                (chain_name originChain))) (\<lambda>_.
     andThen (console_log (YouReceive (formatEther (depositOutputAmount (deposit quote)))
                (chain_name destinationChain))) (\<lambda>_.
     andThen (console_log (BridgeFee (formatEther (totalRelayFee quote)))) (\<lambda>_.
     andThen (console_log (EstimatedTime
                (case estimatedFillTimeSec quote of
                   None \<Rightarrow> None
                 | Some n \<Rightarrow> if n = 0 then None else Some n))) (\<lambda>_.
     ret quote)))))))))))))))))))"

text \<open>
  \<^verbatim>\<open>JSON.stringify\<close> throws a \<^verbatim>\<open>TypeError\<close> when the object holds a bigint, at any depth.
  Otherwise it returns the text of the object, for which the object itself stands here.
\<close>

definition progressHoldsBigInt :: "ExecutionProgress \<Rightarrow> bool" where
  "progressHoldsBigInt progress \<longleftrightarrow>
     txReceipt progress \<noteq> None \<or> depositId progress \<noteq> None
     \<or> fillTxTimestamp progress \<noteq> None"

definition resultHoldsBigInt :: "ExecuteQuoteResponseParams \<Rightarrow> bool" where
  "resultHoldsBigInt r \<longleftrightarrow>
     resultDepositId r \<noteq> None \<or> depositTxReceipt r \<noteq> None \<or> fillTxReceipt r \<noteq> None"

definition JSON_stringify :: "('a \<Rightarrow> bool) \<Rightarrow> 'a \<Rightarrow> 'a res" where
  "JSON_stringify holdsBigInt obj =
     (if holdsBigInt obj then throw (TypeError ''Do not know how to serialize a BigInt'')
      else ret obj)"

text \<open>
  The observer. The arguments of \<^verbatim>\<open>console.log\<close> are evaluated before the call, so a
  throw of \<^verbatim>\<open>JSON.stringify\<close> in the default branch leaves no line.
\<close>

definition onProgressCallback :: "ExecutionProgress \<Rightarrow> unit res" where
  "onProgressCallback progress =
     (if status progress \<noteq> ''txSuccess''
      then console_log (StepFailed (step progress) (status progress))
      else if step progress = ''approve''
        then console_log (ApprovalReceipt (txReceipt progress))
      else if step progress = ''deposit''
        then console_log (DepositIdReceived (depositId progress))
      else if step progress = ''fill''
        then console_log (OrderFilled (fillTxTimestamp progress))
      else andThen (JSON_stringify progressHoldsBigInt progress) (\<lambda>json.
           console_log (UnknownStep json)))"

text \<open>
  Awaiting \<^verbatim>\<open>client.executeQuote\<close> with \<open>onProgressCallback\<close> as the observer: each
  notification runs the observer, whose lines go to the trace, and the execution goes on
  according to whether the observer returned or threw.
\<close>

fun awaitExecution :: "execution \<Rightarrow> ExecuteQuoteResponseParams res" where
  "awaitExecution (Resolve r) = ret r"
| "awaitExecution (Reject m) = throw (LibraryError m)"
| "awaitExecution (Notify progress onReturn onThrow) =
     (case onProgressCallback progress of
        (t, Inr _) \<Rightarrow> prepend t (awaitExecution onReturn)
      | (t, Inl _) \<Rightarrow> prepend t (awaitExecution onThrow))"

definition bridge :: "world \<Rightarrow> WalletClient \<Rightarrow> unit res" where
  "bridge W walletClient =
     andThen (preValidate W) (\<lambda>_.
     andThen (emit CreateAcrossClient) (\<lambda>_.
     andThen (getQuote W) (\<lambda>quote.
     andThen (emit (ExecuteQuote walletClient (deposit quote))) (\<lambda>_.
     andThen (awaitExecution (executeQuote W walletClient (deposit quote))) (\<lambda>bridgeResult.
     (case resultError bridgeResult of
        Some err \<Rightarrow> console_log (BridgeFailed err)
      | None \<Rightarrow>
          andThen (JSON_stringify resultHoldsBigInt bridgeResult) (\<lambda>json.
          console_log (BridgeResult json))))))))"

text \<open>
  The module body: the start-up logging, the account derived from the private key
  (the template string of an unset variable reads \<^verbatim>\<open>0xundefined\<close>), the wallet client
  bound to that account, then \<^verbatim>\<open>bridge()\<close>. Building the two chain clients sends
  nothing; their transports (the RPC URLs) play no part in the flow and are left out.
\<close>

definition main :: "world \<Rightarrow> unit res" where
  "main W =
     andThen (console_log (LoadedInfuraKey (INFURA_PROJECT_KEY W))) (\<lambda>_.
     andThen (console_log (LoadedPubKey (PUBLIC_KEY W))) (\<lambda>_.
     andThen (console_log (LoadedPK (PRIVATE_KEY W))) (\<lambda>_.
     andThen (console_log (OriginChainSelected (chain_name originChain))) (\<lambda>_.
     andThen (console_log (DestinationChainSelected (chain_name destinationChain))) (\<lambda>_.
     andThen (call (privateKeyToAccount W
                (''0x'' @ (case PRIVATE_KEY W of None \<Rightarrow> ''undefined'' | Some k \<Rightarrow> k)))) (\<lambda>account.
     (let walletClient = \<lparr>walletAccount = account, walletChain = originChain\<rparr> in
     bridge W walletClient)))))))"

subsection \<open>Normal forms of the traces\<close>

text \<open>Auxiliary notions in which the traces of the script are stated.\<close>

definition quoteLogs :: "Quote \<Rightarrow> event list" where
  "quoteLogs quote =
     [Log QuoteReceived,
      Log (YouSend (formatEther (depositInputAmount (deposit quote))) ''Sepolia''),
      Log (YouReceive (formatEther (depositOutputAmount (deposit quote))) ''Arbitrum Sepolia''),
      Log (BridgeFee (formatEther (totalRelayFee quote))),
      Log (EstimatedTime (case estimatedFillTimeSec quote of
             None \<Rightarrow> None | Some n \<Rightarrow> if n = 0 then None else Some n))]"

definition intentOf :: "string \<Rightarrow> string \<Rightarrow> GetQuoteParams" where
  "intentOf inp out =
     \<lparr>route = \<lparr>originChainId = 11155111, destinationChainId = 421614,
                inputToken = inp, outputToken = out\<rparr>,
      inputAmount = 200000000000000\<rparr>"

text \<open>What \<open>bridge\<close> does with the result of the execution.\<close>

definition reportResult :: "ExecuteQuoteResponseParams \<Rightarrow> unit res" where
  "reportResult bridgeResult =
     (case resultError bridgeResult of
        Some err \<Rightarrow> ([Log (BridgeFailed err)], Inr ())
      | None \<Rightarrow>
          if resultHoldsBigInt bridgeResult
          then ([], Inl (TypeError ''Do not know how to serialize a BigInt''))
          else ([Log (BridgeResult bridgeResult)], Inr ()))"

subsection \<open>Classes of events\<close>

fun is_balance_query :: "event \<Rightarrow> bool" where
  "is_balance_query (GetBalance _) = True"
| "is_balance_query _ = False"

fun is_quote_request :: "event \<Rightarrow> bool" where
  "is_quote_request (GetQuote _) = True"
| "is_quote_request _ = False"

fun is_execution :: "event \<Rightarrow> bool" where
  "is_execution (ExecuteQuote _ _) = True"
| "is_execution _ = False"

fun quote_or_execution :: "event \<Rightarrow> bool" where
  "quote_or_execution (GetQuote _) = True"
| "quote_or_execution (ExecuteQuote _ _) = True"
| "quote_or_execution _ = False"

text \<open>What the script does with the bridging service: the client, the chain list, the
  quote request, the execution.\<close>

fun bridging_effect :: "event \<Rightarrow> bool" where
  "bridging_effect (Log _) = False"
| "bridging_effect (GetBalance _) = False"
| "bridging_effect _ = True"

text \<open>Every event other than a line on the console.\<close>

fun network_effect :: "event \<Rightarrow> bool" where
  "network_effect (Log _) = False"
| "network_effect _ = True"

text \<open>The two lines that report the terminal result.\<close>

fun is_terminal_log :: "event \<Rightarrow> bool" where
  "is_terminal_log (Log (BridgeFailed _)) = True"
| "is_terminal_log (Log (BridgeResult _)) = True"
| "is_terminal_log _ = False"

text \<open>The lines of the three success branches of the observer, which read the payload of
  the phase.\<close>

fun payload_log :: "event \<Rightarrow> bool" where
  "payload_log (Log (ApprovalReceipt _)) = True"
| "payload_log (Log (DepositIdReceived _)) = True"
| "payload_log (Log (OrderFilled _)) = True"
| "payload_log _ = False"

text \<open>The lines by which the script reports a failure.\<close>

fun failure_report :: "event \<Rightarrow> bool" where
  "failure_report (Log InsufficientFundsExiting) = True"
| "failure_report (Log (StepFailed _ _)) = True"
| "failure_report (Log (BridgeFailed _)) = True"
| "failure_report _ = False"

subsection \<open>A concrete world\<close>

text \<open>
  A supported-chains answer with both configured chains. The destination chain lists
  \<^verbatim>\<open>WETH\<close> under two different addresses in its input and output token lists.
\<close>

definition demoChains :: "AcrossChain list" where
  "demoChains =
     [\<lparr>chainId = 1, inputTokens = [\<lparr>symbol = ''ETH'', tokenAddress = ''0xE1''\<rparr>],
        outputTokens = []\<rparr>,
      \<lparr>chainId = 11155111,
        inputTokens = [\<lparr>symbol = ''WETH'', tokenAddress = ''0xA1''\<rparr>,
                       \<lparr>symbol = ''ETH'', tokenAddress = ''0xA2''\<rparr>],
        outputTokens = [\<lparr>symbol = ''ETH'', tokenAddress = ''0xA3''\<rparr>]\<rparr>,
      \<lparr>chainId = 421614,
        inputTokens = [\<lparr>symbol = ''ETH'', tokenAddress = ''0xB1''\<rparr>,
                       \<lparr>symbol = ''WETH'', tokenAddress = ''0xB2''\<rparr>],
        outputTokens = [\<lparr>symbol = ''WETH'', tokenAddress = ''0xB3''\<rparr>]\<rparr>]"

definition demoQuote :: Quote where
  "demoQuote =
     \<lparr>deposit = \<lparr>depositInputAmount = 200000000000000,
                   depositOutputAmount = 199000000000000,
                   depositRest = ''recipient=0xC1''\<rparr>,
      totalRelayFee = 1000000000000,
      estimatedFillTimeSec = Some 2\<rparr>"

definition demoProgress :: "ExecutionProgress list" where
  "demoProgress =
     [\<lparr>step = ''deposit'', status = ''txPending'', txReceipt = None, depositId = None,
        fillTxTimestamp = None, actionSuccess = None\<rparr>,
      \<lparr>step = ''deposit'', status = ''txSuccess'',
        txReceipt = Some \<lparr>transactionHash = ''0xD1'', blockNumber = 100\<rparr>,
        depositId = Some 7, fillTxTimestamp = None, actionSuccess = None\<rparr>,
      \<lparr>step = ''fill'', status = ''txSuccess'',
        txReceipt = Some \<lparr>transactionHash = ''0xD2'', blockNumber = 200\<rparr>,
        depositId = Some 7, fillTxTimestamp = Some 1700000000,
        actionSuccess = Some True\<rparr>]"

text \<open>The result of a completed execution: the deposit id and the two receipts.\<close>

definition demoResult :: ExecuteQuoteResponseParams where
  "demoResult =
     \<lparr>resultError = None, resultDepositId = Some 7,
      depositTxReceipt = Some \<lparr>transactionHash = ''0xD1'', blockNumber = 100\<rparr>,
      fillTxReceipt = Some \<lparr>transactionHash = ''0xD2'', blockNumber = 200\<rparr>\<rparr>"

text \<open>
  An execution that delivers the notifications in order and then ends as given; should the
  observer throw, it resolves to a result with an error instead.
\<close>

fun deliver :: "ExecutionProgress list \<Rightarrow> execution \<Rightarrow> execution" where
  "deliver [] outcome = outcome"
| "deliver (p # ps) outcome =
     Notify p (deliver ps outcome)
       (Resolve \<lparr>resultError = Some ''observer threw'', resultDepositId = None,
                 depositTxReceipt = None, fillTxReceipt = None\<rparr>)"

definition demoKey :: string where
  "demoKey = ''4c0883a69102937d6231471b5dbb6204fe5129617082792ae468d01a3f362318''"

text \<open>
  The account derivation of the demo world accepts the one well-formed key and rejects
  every other string, \<^verbatim>\<open>0xundefined\<close> among them; the balance is a parameter.
\<close>

definition demoWorld :: "256 word \<Rightarrow> world" where
  "demoWorld bal =
     \<lparr>INFURA_PROJECT_KEY = Some ''infura'',
      PUBLIC_KEY = Some ''0xF1'',
      PRIVATE_KEY = Some demoKey,
      privateKeyToAccount =
        (\<lambda>k. if k = ''0x'' @ demoKey then Inr \<lparr>address = ''0xF2''\<rparr>
             else Inl ''invalid private key''),
      getBalance = (\<lambda>a. if a = Some ''0xF1'' then Inr bal else Inl ''invalid address''),
      getSupportedChains = Inr demoChains,
      getQuoteRequest = (\<lambda>_. Inr demoQuote),
      executeQuote = (\<lambda>_ _. deliver demoProgress (Resolve demoResult))\<rparr>"

section \<open>Properties\<close>

subsection \<open>Rounding to binary64 is monotone\<close>

lemma rhe_range: "\<lfloor>x\<rfloor> \<le> roundHalfEven x \<and> roundHalfEven x \<le> \<lfloor>x\<rfloor> + 1"
  by (simp add: roundHalfEven_def Let_def)

lemma rhe_mono:
  assumes "x \<le> y"
  shows "roundHalfEven x \<le> roundHalfEven y"
proof (cases "\<lfloor>x\<rfloor> = \<lfloor>y\<rfloor>")
  case True
  then show ?thesis
    using assms by (auto simp: roundHalfEven_def Let_def)
next
  case False
  with assms have "\<lfloor>x\<rfloor> < \<lfloor>y\<rfloor>"
    using floor_mono [of x y] by linarith
  then show ?thesis
    using rhe_range [of x] rhe_range [of y] by linarith
qed

lemma rhe_of_int: "roundHalfEven (of_int n) = n"
  by (simp add: roundHalfEven_def)

lemma rhe_ge: "of_int n \<le> x \<Longrightarrow> n \<le> roundHalfEven x"
  using rhe_mono [of "of_int n" x] by (simp add: rhe_of_int)

lemma rhe_le: "x \<le> of_int n \<Longrightarrow> roundHalfEven x \<le> n"
  using rhe_mono [of x "of_int n"] by (simp add: rhe_of_int)

lemma pow2_exp_less:
  assumes "(2::rat) powi m \<le> x" and "x < 2 powi n"
  shows "m < n"
proof (rule ccontr)
  assume "\<not> m < n"
  then have "(2::rat) powi n \<le> 2 powi m"
    by (intro power_int_increasing) auto
  with assms show False by linarith
qed

lemma ilog2_bounds:
  assumes "0 < x"
  shows "2 powi (ilog2 x) \<le> x \<and> x < 2 powi (ilog2 x + 1)"
proof -
  obtain p q where pq: "quotient_of x = (p, q)"
    by (cases "quotient_of x")
  then have q: "0 < q" and x: "x = of_int p / of_int q"
    using quotient_of_denom_pos quotient_of_div by auto
  with assms have p: "0 < p"
    by (simp add: zero_less_divide_iff)
  define a where "a = bitlen p"
  define b where "b = bitlen q"
  have a1: "1 \<le> a" and b1: "1 \<le> b"
    using p q bitlen_eq_zero_iff [of p] bitlen_eq_zero_iff [of q]
      bitlen_nonneg [of p] bitlen_nonneg [of q]
    unfolding a_def b_def by linarith+
  have "2 ^ nat (a - 1) \<le> p" "p < 2 ^ nat a" "2 ^ nat (b - 1) \<le> q" "q < 2 ^ nat b"
    using bitlen_bounds [OF p] bitlen_bounds [OF q] unfolding a_def b_def by auto
  then have "(of_int (2 ^ nat (a - 1)) :: rat) \<le> of_int p" "(of_int p :: rat) < of_int (2 ^ nat a)"
    "(of_int (2 ^ nat (b - 1)) :: rat) \<le> of_int q" "(of_int q :: rat) < of_int (2 ^ nat b)"
    by (simp_all only: of_int_le_iff of_int_less_iff)
  then have pa: "(2::rat) powi (a - 1) \<le> of_int p" "of_int p < (2::rat) powi a"
    and qb: "(2::rat) powi (b - 1) \<le> of_int q" "of_int q < (2::rat) powi b"
    using a1 b1 by (simp_all add: power_int_def)
  have up: "x < 2 powi (a - b + 1)"
  proof -
    have "of_int p / of_int q < (2::rat) powi a / 2 powi (b - 1)"
      using pa qb p by (intro frac_less) auto
    also have "\<dots> = 2 powi (a - (b - 1))"
      by (simp add: power_int_diff)
    finally show ?thesis
      by (simp add: x algebra_simps)
  qed
  have lo: "2 powi (a - b - 1) \<le> x"
  proof -
    have "(2::rat) powi (a - 1) / 2 powi b \<le> of_int p / of_int q"
      using pa qb p q by (intro frac_le) auto
    moreover have "(2::rat) powi (a - 1) / 2 powi b = 2 powi (a - 1 - b)"
      by (simp add: power_int_diff)
    ultimately show ?thesis
      by (simp add: x algebra_simps)
  qed
  have il: "ilog2 x = (if 2 powi (a - b) \<le> x then a - b else a - b - 1)"
    by (simp add: ilog2_def pq a_def b_def Let_def)
  show ?thesis
    using up lo by (simp add: il)
qed

lemma Number_pos:
  assumes "0 < x"
  shows "2 powi (ilog2 x) \<le> Number x \<and> Number x \<le> 2 powi (ilog2 x + 1)"
proof -
  define e where "e = ilog2 x"
  have b: "2 powi e \<le> x" "x < 2 powi (e + 1)"
    using ilog2_bounds [OF assms] by (simp_all add: e_def)
  have s: "(0::rat) < 2 powi (52 - e)" "(0::rat) < 2 powi (e - 52)"
    by simp_all
  have N: "Number x = of_int (roundHalfEven (x * 2 powi (52 - e))) * 2 powi (e - 52)"
    using assms by (simp add: Number_def e_def Let_def)
  have "(2::rat) powi e * 2 powi (52 - e) \<le> x * 2 powi (52 - e)"
    using b s by (intro mult_right_mono) auto
  moreover have "(2::rat) powi e * 2 powi (52 - e) = of_int (2 ^ 52)"
    by (simp flip: power_int_add)
  ultimately have "2 ^ 52 \<le> roundHalfEven (x * 2 powi (52 - e))"
    by (intro rhe_ge) simp
  then have "(of_int (2 ^ 52) :: rat) \<le> of_int (roundHalfEven (x * 2 powi (52 - e)))"
    by (simp only: of_int_le_iff)
  then have "(of_int (2 ^ 52) :: rat) * 2 powi (e - 52)
      \<le> of_int (roundHalfEven (x * 2 powi (52 - e))) * 2 powi (e - 52)"
    using s by (intro mult_right_mono) auto
  moreover have "(of_int (2 ^ 52) :: rat) * 2 powi (e - 52) = 2 powi e"
    by (simp add: power_int_diff)
  ultimately have lo: "2 powi e \<le> Number x"
    unfolding N by linarith
  have "x * 2 powi (52 - e) \<le> (2::rat) powi (e + 1) * 2 powi (52 - e)"
    using b s by (intro mult_right_mono) auto
  moreover have "(2::rat) powi (e + 1) * 2 powi (52 - e) = of_int (2 ^ 53)"
    by (simp flip: power_int_add)
  ultimately have "roundHalfEven (x * 2 powi (52 - e)) \<le> 2 ^ 53"
    by (intro rhe_le) simp
  then have "(of_int (roundHalfEven (x * 2 powi (52 - e))) :: rat) \<le> of_int (2 ^ 53)"
    by (simp only: of_int_le_iff)
  then have "of_int (roundHalfEven (x * 2 powi (52 - e))) * 2 powi (e - 52)
      \<le> (of_int (2 ^ 53) :: rat) * 2 powi (e - 52)"
    using s by (intro mult_right_mono) auto
  moreover have "(of_int (2 ^ 53) :: rat) * 2 powi (e - 52) = 2 powi (e + 1)"
    by (simp add: power_int_diff power_int_add)
  ultimately have hi: "Number x \<le> 2 powi (e + 1)"
    unfolding N by linarith
  show ?thesis
    using lo hi by (simp add: e_def)
qed

lemma Number_mono:
  assumes "x \<le> y"
  shows "Number x \<le> Number y"
proof (cases "0 < x")
  case False
  then have "Number x = 0"
    by (simp add: Number_def)
  moreover have "0 \<le> Number y"
    by (simp add: Number_def Let_def rhe_ge)
  ultimately show ?thesis by simp
next
  case True
  with assms have y: "0 < y" by simp
  have le: "ilog2 x \<le> ilog2 y"
    using pow2_exp_less [of "ilog2 x" x "ilog2 y + 1"]
      ilog2_bounds [OF True] ilog2_bounds [OF y] assms by simp
  show ?thesis
  proof (cases "ilog2 x = ilog2 y")
    case True
    have "x * 2 powi (52 - ilog2 y) \<le> y * 2 powi (52 - ilog2 y)"
      using assms by (intro mult_right_mono) auto
    then have "roundHalfEven (x * 2 powi (52 - ilog2 y))
        \<le> roundHalfEven (y * 2 powi (52 - ilog2 y))"
      by (rule rhe_mono)
    then have "(of_int (roundHalfEven (x * 2 powi (52 - ilog2 y))) :: rat)
        \<le> of_int (roundHalfEven (y * 2 powi (52 - ilog2 y)))"
      by (simp only: of_int_le_iff)
    then have "of_int (roundHalfEven (x * 2 powi (52 - ilog2 y))) * (2::rat) powi (ilog2 y - 52)
        \<le> of_int (roundHalfEven (y * 2 powi (52 - ilog2 y))) * 2 powi (ilog2 y - 52)"
      by (intro mult_right_mono) auto
    then show ?thesis
      using \<open>0 < x\<close> y True by (simp add: Number_def Let_def)
  next
    case False
    with le have "ilog2 x + 1 \<le> ilog2 y" by simp
    then have "(2::rat) powi (ilog2 x + 1) \<le> 2 powi (ilog2 y)"
      by (intro power_int_increasing) auto
    then show ?thesis
      using Number_pos [OF \<open>0 < x\<close>] Number_pos [OF y] by linarith
  qed
qed

lemma Number_hundredth: "Number (1 / 100) = 5764607523034235 / 2 ^ 59"
  by code_simp

lemma Number_below: "Number (9999999999999999 / 10 ^ 18) = 5764607523034234 / 2 ^ 59"
  by code_simp

lemma threshold:
  "Number (formatEther n) < Number (1 / 100) \<longleftrightarrow> n < 10 ^ 16"
proof
  assume "n < 10 ^ 16"
  then have "n \<le> 9999999999999999" by simp
  then have "(of_nat n :: rat) \<le> of_nat 9999999999999999"
    by (simp only: of_nat_le_iff)
  then have "formatEther n \<le> 9999999999999999 / 10 ^ 18"
    by (simp add: formatEther_def divide_right_mono)
  then have "Number (formatEther n) \<le> Number (9999999999999999 / 10 ^ 18)"
    by (rule Number_mono)
  moreover have "Number (9999999999999999 / 10 ^ 18) < Number (1 / 100)"
    unfolding Number_hundredth Number_below by simp
  ultimately show "Number (formatEther n) < Number (1 / 100)"
    by (rule le_less_trans)
next
  assume a: "Number (formatEther n) < Number (1 / 100)"
  show "n < 10 ^ 16"
  proof (rule ccontr)
    assume "\<not> n < 10 ^ 16"
    then have "(10::nat) ^ 16 \<le> n" by simp
    then have "(of_nat (10 ^ 16) :: rat) \<le> of_nat n"
      by (simp only: of_nat_le_iff)
    then have "1 / 100 \<le> formatEther n"
      by (simp add: formatEther_def)
    then have "Number (1 / 100) \<le> Number (formatEther n)"
      by (rule Number_mono)
    with a show False by simp
  qed
qed


subsection \<open>Sequencing\<close>

lemma andThen_emit: "andThen (emit ev) f = prepend [ev] (f ())"
  by (simp add: andThen_def emit_def prepend_def split: prod.splits)

lemma andThen_console_log: "andThen (console_log l) f = prepend [Log l] (f ())"
  by (simp add: console_log_def andThen_emit)

lemma prepend_pair: "prepend t (t', r) = (t @ t', r)"
  by (simp add: prepend_def)

lemma prepend_prepend: "prepend t (prepend t' m) = prepend (t @ t') m"
  by (simp add: prepend_def)

lemma andThen_ret: "andThen (ret a) f = f a"
  by (simp add: andThen_def ret_def split: prod.splits)

lemma andThen_pure: "andThen ([], Inr a) f = f a"
  by (simp add: andThen_def split: prod.splits)

lemma andThen_fail: "andThen (t, Inl e) f = (t, Inl e)"
  by (simp add: andThen_def)

lemma andThen_throw: "andThen (throw e) f = throw e"
  by (simp add: andThen_def throw_def)

lemma andThen_call:
  "andThen (call r) f = (case r of Inl m \<Rightarrow> throw (LibraryError m) | Inr a \<Rightarrow> f a)"
  by (simp add: call_def andThen_ret andThen_throw split: sum.splits)

lemma andThen_readProp:
  "andThen (readProp prop obj sel) f =
     (case obj of None \<Rightarrow> throw (TypeError prop) | Some x \<Rightarrow> f (sel x))"
  by (simp add: readProp_def andThen_ret andThen_throw split: option.splits)

lemmas seq_simps = andThen_emit andThen_console_log andThen_ret andThen_throw andThen_call
  andThen_readProp andThen_pure andThen_fail prepend_pair prepend_prepend

lemma digitsVal_zeros: "digitsVal acc (replicate n CHR ''0'') = Some (acc * 10 ^ n)"
  by (induction n arbitrary: acc) (simp_all add: digitVal_def)

lemma parseEther_amount: "parseEther ''0.0002'' = Some 200000000000000"
  by (simp add: parseEther_def digitVal_def Let_def digitsVal_zeros)

lemma preValidate_eq:
  "preValidate W =
     (case getBalance W (getPubKey W) of
        Inl m \<Rightarrow>
          ([Log (ValidatingBalance (getPubKey W)), GetBalance (getPubKey W)],
           Inl (LibraryError m))
      | Inr weiBalance \<Rightarrow>
          if Number (formatEther (unat weiBalance)) < Number (1 / 100)
          then ([Log (ValidatingBalance (getPubKey W)), GetBalance (getPubKey W),
                 Log (WeiBalance weiBalance),
                 Log (BalanceInEth (formatEther (unat weiBalance))),
                 Log InsufficientFundsExiting], Inl InsufficientFundsError)
          else ([Log (ValidatingBalance (getPubKey W)), GetBalance (getPubKey W),
                 Log (WeiBalance weiBalance),
                 Log (BalanceInEth (formatEther (unat weiBalance)))], Inr ()))"
  by (simp add: preValidate_def seq_simps Let_def throw_def ret_def split: sum.splits)

lemma getQuote_eq:
  "getQuote W =
     (case getSupportedChains W of
        Inl m \<Rightarrow> ([GetSupportedChains], Inl (LibraryError m))
      | Inr supported \<Rightarrow>
         (case find (\<lambda>x. chainId x = 11155111) supported of
            None \<Rightarrow> ([GetSupportedChains], Inl (TypeError ''inputTokens''))
          | Some oc \<Rightarrow>
             (case find (\<lambda>x. chainId x = 421614) supported of
                None \<Rightarrow> ([GetSupportedChains], Inl (TypeError ''inputTokens''))
              | Some dc \<Rightarrow>
                 (case find (\<lambda>x. symbol x = ''ETH'') (inputTokens oc) of
                    None \<Rightarrow> ([GetSupportedChains], Inl (TypeError ''address''))
                  | Some ot \<Rightarrow>
                     (case find (\<lambda>x. symbol x = ''WETH'') (inputTokens dc) of
                        None \<Rightarrow> ([GetSupportedChains], Inl (TypeError ''address''))
                      | Some dt \<Rightarrow>
                         (case getQuoteRequest W (intentOf (tokenAddress ot) (tokenAddress dt)) of
                            Inl m \<Rightarrow>
                              ([GetSupportedChains, Log RequestingQuote,
                                GetQuote (intentOf (tokenAddress ot) (tokenAddress dt))],
                               Inl (LibraryError m))
                          | Inr quote \<Rightarrow>
                              ([GetSupportedChains, Log RequestingQuote,
                                GetQuote (intentOf (tokenAddress ot) (tokenAddress dt))]
                               @ quoteLogs quote, Inr quote)))))))"
  by (simp add: getQuote_def seq_simps Let_def throw_def ret_def parseEther_amount
      originChain_def destinationChain_def sepolia_def arbitrumSepolia_def
      originTokenSymbol_def destTokenSymbol_def intentOf_def quoteLogs_def
      split: sum.splits option.splits)

lemma reportResult_eq:
  "(case resultError r of
      Some err \<Rightarrow> console_log (BridgeFailed err)
    | None \<Rightarrow>
        andThen (JSON_stringify resultHoldsBigInt r) (\<lambda>json.
        console_log (BridgeResult json))) = reportResult r"
  by (simp add: reportResult_def JSON_stringify_def console_log_def emit_def andThen_def
      throw_def ret_def split: option.splits)

lemma bridge_eq:
  "bridge W wc =
     (case preValidate W of
        (t1, Inl e) \<Rightarrow> (t1, Inl e)
      | (t1, Inr _) \<Rightarrow>
         (case getQuote W of
            (t2, Inl e) \<Rightarrow> (t1 @ CreateAcrossClient # t2, Inl e)
          | (t2, Inr quote) \<Rightarrow>
              prepend (t1 @ CreateAcrossClient # t2 @ [ExecuteQuote wc (deposit quote)])
                (andThen (awaitExecution (executeQuote W wc (deposit quote)))
                   reportResult)))"
  unfolding bridge_def reportResult_eq
  by (simp add: andThen_def emit_def prepend_def split: prod.splits sum.splits)

lemma main_eq:
  "main W =
     (case privateKeyToAccount W
         (''0x'' @ (case PRIVATE_KEY W of None \<Rightarrow> ''undefined'' | Some k \<Rightarrow> k)) of
        Inl m \<Rightarrow>
          ([Log (LoadedInfuraKey (INFURA_PROJECT_KEY W)), Log (LoadedPubKey (PUBLIC_KEY W)),
            Log (LoadedPK (PRIVATE_KEY W)), Log (OriginChainSelected ''Sepolia''),
            Log (DestinationChainSelected ''Arbitrum Sepolia'')], Inl (LibraryError m))
      | Inr account \<Rightarrow>
          ([Log (LoadedInfuraKey (INFURA_PROJECT_KEY W)), Log (LoadedPubKey (PUBLIC_KEY W)),
            Log (LoadedPK (PRIVATE_KEY W)), Log (OriginChainSelected ''Sepolia''),
            Log (DestinationChainSelected ''Arbitrum Sepolia'')]
           @ fst (bridge W \<lparr>walletAccount = account, walletChain = originChain\<rparr>),
           snd (bridge W \<lparr>walletAccount = account, walletChain = originChain\<rparr>)))"
  by (simp add: main_def seq_simps Let_def throw_def prepend_def
      originChain_def destinationChain_def sepolia_def arbitrumSepolia_def
      split: sum.splits)

subsection \<open>The threshold in wei\<close>

lemma formatEther_below: "formatEther n < 1 / 100 \<longleftrightarrow> n < 10 ^ 16"
proof -
  have "formatEther n < 1 / 100 \<longleftrightarrow> (of_nat n :: rat) < of_nat (10 ^ 16)"
    by (simp add: formatEther_def)
  also have "\<dots> \<longleftrightarrow> n < 10 ^ 16"
    by (simp only: of_nat_less_iff)
  finally show ?thesis .
qed

lemma precheck_comparison:
  "Number (formatEther n) < Number (1 / 100) \<longleftrightarrow> formatEther n < 1 / 100"
  by (simp only: threshold formatEther_below)

lemma getQuote_starts: "take 1 (fst (getQuote W)) = [GetSupportedChains]"
  by (simp add: getQuote_eq split: sum.splits option.splits)

lemma preValidate_no_bridging: "filter bridging_effect (fst (preValidate W)) = []"
  by (simp add: preValidate_eq split: sum.splits)

subsection \<open>The balance precheck\<close>

text \<open>
  Claim C1. Whenever the balance query answers a balance that, in ether, is strictly below
  0.01, \<open>preValidate\<close> logs the balance and the exit line and throws
  \<open>InsufficientFundsError\<close>; \<open>bridge\<close> ends there with the same trace and error, so the
  bridging client is not created and no chain list, quote or execution is requested.
\<close>

theorem insufficient_balance_aborts_before_quote:
  assumes "getBalance W (getPubKey W) = Inr weiBalance"
    and "formatEther (unat weiBalance) < 1 / 100"
  shows "preValidate W =
           ([Log (ValidatingBalance (getPubKey W)), GetBalance (getPubKey W),
             Log (WeiBalance weiBalance),
             Log (BalanceInEth (formatEther (unat weiBalance))),
             Log InsufficientFundsExiting], Inl InsufficientFundsError)
         \<and> bridge W walletClient = preValidate W
         \<and> filter bridging_effect (fst (bridge W walletClient)) = []"
proof -
  have pre: "preValidate W =
           ([Log (ValidatingBalance (getPubKey W)), GetBalance (getPubKey W),
             Log (WeiBalance weiBalance),
             Log (BalanceInEth (formatEther (unat weiBalance))),
             Log InsufficientFundsExiting], Inl InsufficientFundsError)"
    using assms by (simp add: preValidate_eq precheck_comparison)
  then have br: "bridge W walletClient = preValidate W"
    by (simp add: bridge_eq)
  show ?thesis
    using pre br by simp
qed

text \<open>The scenario of a balance of 0.005 ether.\<close>

theorem insufficient_balance_witness:
  "bridge (demoWorld 5000000000000000) \<lparr>walletAccount = \<lparr>address = ''0xF2''\<rparr>, walletChain = originChain\<rparr> =
     ([Log (ValidatingBalance (Some ''0xF1'')), GetBalance (Some ''0xF1''),
       Log (WeiBalance 5000000000000000), Log (BalanceInEth (5 / 1000)),
       Log InsufficientFundsExiting], Inl InsufficientFundsError)"
  using insufficient_balance_aborts_before_quote
    [of "demoWorld 5000000000000000" 5000000000000000
      "\<lparr>walletAccount = \<lparr>address = ''0xF2''\<rparr>, walletChain = originChain\<rparr>"]
  by (simp add: demoWorld_def getPubKey_def formatEther_def)

subsection \<open>Which events each step can emit\<close>

lemma fst_andThen:
  "fst (andThen m f) = fst m @ (case snd m of Inl e \<Rightarrow> [] | Inr a \<Rightarrow> fst (f a))"
  by (cases m) (simp add: andThen_def split: sum.splits prod.splits)

lemma onProgressCallback_filter:
  assumes "\<And>l. \<not> P (Log l)"
  shows "filter P (fst (onProgressCallback p)) = []"
  by (simp add: onProgressCallback_def console_log_def emit_def JSON_stringify_def
      andThen_def throw_def ret_def assms)

lemma awaitExecution_filter:
  assumes "\<And>l. \<not> P (Log l)"
  shows "filter P (fst (awaitExecution x)) = []"
proof (induction x)
  case (Resolve r)
  show ?case by (simp add: ret_def)
next
  case (Reject m)
  show ?case by (simp add: throw_def)
next
  case (Notify p onReturn onThrow)
  obtain t r where cb: "onProgressCallback p = (t, r)"
    by (cases "onProgressCallback p")
  have "filter P t = []"
    using onProgressCallback_filter [of P p, OF assms] by (simp add: cb)
  then show ?case
    using Notify by (cases r) (simp_all add: cb prepend_def)
qed

lemma reportResult_filter:
  assumes "\<And>l. \<not> P (Log l)"
  shows "filter P (fst (reportResult r)) = []"
  by (simp add: reportResult_def assms split: option.splits)

lemma execution_filter:
  assumes "\<And>l. \<not> P (Log l)"
  shows "filter P (fst (andThen (awaitExecution x) reportResult)) = []"
  by (simp add: fst_andThen awaitExecution_filter [of P, OF assms]
      reportResult_filter [of P, OF assms] split: sum.splits)

lemma awaitExecution_not_terminal:
  "filter is_terminal_log (fst (awaitExecution x)) = []"
proof (induction x)
  case (Resolve r)
  show ?case by (simp add: ret_def)
next
  case (Reject m)
  show ?case by (simp add: throw_def)
next
  case (Notify p onReturn onThrow)
  obtain t r where cb: "onProgressCallback p = (t, r)"
    by (cases "onProgressCallback p")
  have "filter is_terminal_log (fst (onProgressCallback p)) = []"
    by (simp add: onProgressCallback_def console_log_def emit_def JSON_stringify_def
        andThen_def throw_def ret_def)
  then have "filter is_terminal_log t = []"
    by (simp add: cb)
  then show ?case
    using Notify by (cases r) (simp_all add: cb prepend_def)
qed

lemma preValidate_balance_query:
  "filter is_balance_query (fst (preValidate W)) = [GetBalance (getPubKey W)]"
  by (simp add: preValidate_eq split: sum.splits)

lemma preValidate_no_execution: "filter quote_or_execution (fst (preValidate W)) = []"
  by (simp add: preValidate_eq split: sum.splits)

lemma preValidate_not_execution: "filter is_execution (fst (preValidate W)) = []"
  by (simp add: preValidate_eq split: sum.splits)

lemma getQuote_not_execution: "filter is_execution (fst (getQuote W)) = []"
  by (simp add: getQuote_eq quoteLogs_def split: sum.splits option.splits)

lemma preValidate_not_terminal: "filter is_terminal_log (fst (preValidate W)) = []"
  by (simp add: preValidate_eq split: sum.splits)

lemma getQuote_no_balance_query: "filter is_balance_query (fst (getQuote W)) = []"
  by (simp add: getQuote_eq quoteLogs_def split: sum.splits option.splits)

lemma getQuote_not_terminal: "filter is_terminal_log (fst (getQuote W)) = []"
  by (simp add: getQuote_eq quoteLogs_def split: sum.splits option.splits)

lemma getQuote_failed_shape:
  assumes "snd (getQuote W) = Inl e"
  shows "filter quote_or_execution (fst (getQuote W)) = []
       \<or> (\<exists>intent m. getQuoteRequest W intent = Inl m
             \<and> filter quote_or_execution (fst (getQuote W)) = [GetQuote intent])"
  using assms
  by (auto simp: getQuote_eq quoteLogs_def split: sum.splits option.splits)

lemma getQuote_returned_shape:
  assumes "snd (getQuote W) = Inr quote"
  shows "\<exists>intent. getQuoteRequest W intent = Inr quote
           \<and> filter quote_or_execution (fst (getQuote W)) = [GetQuote intent]"
  using assms
  by (auto simp: getQuote_eq quoteLogs_def split: sum.splits option.splits)

lemma demo_getQuote:
  "getQuote (demoWorld bal) =
     ([GetSupportedChains, Log RequestingQuote, GetQuote (intentOf ''0xA2'' ''0xB2'')]
      @ quoteLogs demoQuote, Inr demoQuote)"
  by (simp add: getQuote_eq demoWorld_def demoChains_def)

lemma demo_preValidate:
  "preValidate (demoWorld 1000000000000000000) =
     ([Log (ValidatingBalance (Some ''0xF1'')), GetBalance (Some ''0xF1''),
       Log (WeiBalance 1000000000000000000), Log (BalanceInEth 1)], Inr ())"
proof -
  have "preValidate (demoWorld 1000000000000000000) =
     ([Log (ValidatingBalance (Some ''0xF1'')), GetBalance (Some ''0xF1''),
       Log (WeiBalance 1000000000000000000),
       Log (BalanceInEth (formatEther (unat (1000000000000000000 :: 256 word))))], Inr ())"
    by (simp add: preValidate_eq threshold demoWorld_def getPubKey_def)
  then show ?thesis
    by (simp add: formatEther_def)
qed

text \<open>The whole trace of \<open>bridge\<close> in the demo world with a balance of one ether.\<close>

lemma demo_execution:
  "andThen (awaitExecution (deliver demoProgress (Resolve demoResult))) reportResult =
     ([Log (StepFailed ''deposit'' ''txPending''),
       Log (DepositIdReceived (Some 7)), Log (OrderFilled (Some 1700000000))],
      Inl (TypeError ''Do not know how to serialize a BigInt''))"
  by (simp add: demoProgress_def demoResult_def onProgressCallback_def console_log_def
      emit_def prepend_def ret_def andThen_def reportResult_def resultHoldsBigInt_def)

lemma demo_bridge:
  "bridge (demoWorld 1000000000000000000)
      \<lparr>walletAccount = \<lparr>address = ''0xF2''\<rparr>, walletChain = originChain\<rparr> =
     ([Log (ValidatingBalance (Some ''0xF1'')), GetBalance (Some ''0xF1''),
       Log (WeiBalance 1000000000000000000), Log (BalanceInEth 1),
       CreateAcrossClient, GetSupportedChains, Log RequestingQuote,
       GetQuote (intentOf ''0xA2'' ''0xB2'')] @ quoteLogs demoQuote @
      [ExecuteQuote \<lparr>walletAccount = \<lparr>address = ''0xF2''\<rparr>, walletChain = originChain\<rparr>
         (deposit demoQuote),
       Log (StepFailed ''deposit'' ''txPending''),
       Log (DepositIdReceived (Some 7)), Log (OrderFilled (Some 1700000000))],
      Inl (TypeError ''Do not know how to serialize a BigInt''))"
proof -
  have ex: "executeQuote (demoWorld 1000000000000000000)
      \<lparr>walletAccount = \<lparr>address = ''0xF2''\<rparr>, walletChain = originChain\<rparr>
      (deposit demoQuote) = deliver demoProgress (Resolve demoResult)"
    by (simp add: demoWorld_def)
  show ?thesis
    by (simp add: bridge_eq demo_preValidate demo_getQuote ex demo_execution prepend_def)
qed

subsection \<open>The precheck passes at the threshold and above\<close>

text \<open>
  Claim C2. Whenever the balance query answers a balance that, converted from wei to ether,
  is 0.01 or more (0.01 itself included), the comparison made by \<open>preValidate\<close> on the
  converted balance is false, \<open>preValidate\<close> returns normally after logging the balance,
  and \<open>bridge\<close> goes on to create the bridging client and to ask for the supported chains,
  the first step of quoting.
\<close>

theorem sufficient_balance_proceeds_to_quote:
  assumes "getBalance W (getPubKey W) = Inr weiBalance"
    and "1 / 100 \<le> formatEther (unat weiBalance)"
  shows "\<not> Number (formatEther (unat weiBalance)) < Number (1 / 100)
         \<and> preValidate W =
           ([Log (ValidatingBalance (getPubKey W)), GetBalance (getPubKey W),
             Log (WeiBalance weiBalance),
             Log (BalanceInEth (formatEther (unat weiBalance)))], Inr ())
         \<and> take 6 (fst (bridge W walletClient)) =
           [Log (ValidatingBalance (getPubKey W)), GetBalance (getPubKey W),
            Log (WeiBalance weiBalance),
            Log (BalanceInEth (formatEther (unat weiBalance))),
            CreateAcrossClient, GetSupportedChains]"
proof -
  have cmp: "\<not> Number (formatEther (unat weiBalance)) < Number (1 / 100)"
    using assms(2) by (simp add: precheck_comparison)
  have pre: "preValidate W =
           ([Log (ValidatingBalance (getPubKey W)), GetBalance (getPubKey W),
             Log (WeiBalance weiBalance),
             Log (BalanceInEth (formatEther (unat weiBalance)))], Inr ())"
    using assms(1) cmp by (simp add: preValidate_eq)
  obtain t where "fst (getQuote W) = GetSupportedChains # t"
    using getQuote_starts [of W] by (cases "fst (getQuote W)") simp_all
  then obtain r where quo: "getQuote W = (GetSupportedChains # t, r)"
    by (cases "getQuote W") simp
  have "take 6 (fst (bridge W walletClient)) =
           [Log (ValidatingBalance (getPubKey W)), GetBalance (getPubKey W),
            Log (WeiBalance weiBalance),
            Log (BalanceInEth (formatEther (unat weiBalance))),
            CreateAcrossClient, GetSupportedChains]"
    by (simp add: bridge_eq pre quo prepend_def split: prod.splits sum.splits)
  then show ?thesis
    using cmp pre by simp
qed

text \<open>A balance of exactly 0.01 ether.\<close>

theorem sufficient_balance_witness:
  "take 6 (fst (bridge (demoWorld 10000000000000000)
      \<lparr>walletAccount = \<lparr>address = ''0xF2''\<rparr>, walletChain = originChain\<rparr>)) =
     [Log (ValidatingBalance (Some ''0xF1'')), GetBalance (Some ''0xF1''),
      Log (WeiBalance 10000000000000000), Log (BalanceInEth (1 / 100)),
      CreateAcrossClient, GetSupportedChains]"
  using sufficient_balance_proceeds_to_quote
    [of "demoWorld 10000000000000000" 10000000000000000
      "\<lparr>walletAccount = \<lparr>address = ''0xF2''\<rparr>, walletChain = originChain\<rparr>"]
  by (simp add: demoWorld_def getPubKey_def formatEther_def)

subsection \<open>Lookup misses in the supported-chains answer\<close>

text \<open>
  When a configured chain or token is missing from the answer, \<open>getQuote\<close> ends with the
  runtime's \<open>TypeError\<close> of a property read on \<open>undefined\<close>, after the chain list was
  fetched and before any quote is requested.
\<close>

lemma getQuote_lookup_miss:
  assumes "getSupportedChains W = Inr supported"
    and "find (\<lambda>x. chainId x = chain_id originChain) supported = None
       \<or> find (\<lambda>x. chainId x = chain_id destinationChain) supported = None
       \<or> (\<exists>oc. find (\<lambda>x. chainId x = chain_id originChain) supported = Some oc
             \<and> find (\<lambda>x. symbol x = originTokenSymbol) (inputTokens oc) = None)
       \<or> (\<exists>dc. find (\<lambda>x. chainId x = chain_id destinationChain) supported = Some dc
             \<and> find (\<lambda>x. symbol x = destTokenSymbol) (inputTokens dc) = None)"
  shows "getQuote W = ([GetSupportedChains], Inl (TypeError ''inputTokens''))
       \<or> getQuote W = ([GetSupportedChains], Inl (TypeError ''address''))"
  using assms
  by (auto simp: getQuote_eq originChain_def destinationChain_def sepolia_def
      arbitrumSepolia_def originTokenSymbol_def destTokenSymbol_def
      split: sum.splits option.splits)

text \<open>
  Claim C3. The claim asks for a named \<open>ChainNotFound\<close> or \<open>TokenNotFound\<close> error on a
  lookup miss. On an empty supported-chains answer, and on an answer whose destination
  chain lists \<open>WETH\<close> only among its output tokens, \<open>getQuote\<close> instead ends with a
  \<open>TypeError\<close>: the script has no named error for a miss.
\<close>

theorem lookup_miss_raises_TypeError:
  "getQuote ((demoWorld 1000000000000000000)\<lparr>getSupportedChains := Inr []\<rparr>) =
     ([GetSupportedChains], Inl (TypeError ''inputTokens''))
   \<and> getQuote ((demoWorld 1000000000000000000)\<lparr>getSupportedChains := Inr
        [\<lparr>chainId = 11155111, inputTokens = [\<lparr>symbol = ''ETH'', tokenAddress = ''0xA2''\<rparr>],
           outputTokens = []\<rparr>,
         \<lparr>chainId = 421614, inputTokens = [\<lparr>symbol = ''ETH'', tokenAddress = ''0xB1''\<rparr>],
           outputTokens = [\<lparr>symbol = ''WETH'', tokenAddress = ''0xB3''\<rparr>]\<rparr>]\<rparr>) =
     ([GetSupportedChains], Inl (TypeError ''address''))"
  by (simp add: getQuote_eq demoWorld_def)

subsection \<open>The route of the quote request\<close>

text \<open>
  Claim C4. When the supported-chains answer holds an entry for the origin chain with a
  token of the origin symbol, and an entry for the destination chain with a token of the
  destination symbol, \<open>getQuote\<close> submits exactly one quote request; its route is the
  origin chain id, the destination chain id, the address of the origin token found and the
  address of the destination token found, and its input amount is the wei amount of
  \<open>0.0002\<close> ether.
\<close>

theorem quote_request_carries_resolved_route:
  assumes "getSupportedChains W = Inr supported"
    and "find (\<lambda>x. chainId x = chain_id originChain) supported = Some oc"
    and "find (\<lambda>x. symbol x = originTokenSymbol) (inputTokens oc) = Some ot"
    and "find (\<lambda>x. chainId x = chain_id destinationChain) supported = Some dc"
    and "find (\<lambda>x. symbol x = destTokenSymbol) (inputTokens dc) = Some dt"
  shows "filter is_quote_request (fst (getQuote W)) =
           [GetQuote \<lparr>route = \<lparr>originChainId = chain_id originChain,
                                destinationChainId = chain_id destinationChain,
                                inputToken = tokenAddress ot,
                                outputToken = tokenAddress dt\<rparr>,
                      inputAmount = 200000000000000\<rparr>]
         \<and> formatEther 200000000000000 = 2 / 10000
         \<and> parseEther ''0.0002'' = Some 200000000000000"
  using assms
  by (simp add: getQuote_eq originChain_def destinationChain_def sepolia_def
      arbitrumSepolia_def originTokenSymbol_def destTokenSymbol_def intentOf_def
      quoteLogs_def formatEther_def parseEther_amount split: sum.splits)

text \<open>The demo chain list: the first matching entries are the ones used.\<close>

theorem quote_request_witness:
  "filter is_quote_request (fst (getQuote (demoWorld 1000000000000000000))) =
     [GetQuote \<lparr>route = \<lparr>originChainId = 11155111, destinationChainId = 421614,
                          inputToken = ''0xA2'', outputToken = ''0xB2''\<rparr>,
                inputAmount = 200000000000000\<rparr>]"
  using quote_request_carries_resolved_route
    [of "demoWorld 1000000000000000000" demoChains
      "\<lparr>chainId = 11155111,
        inputTokens = [\<lparr>symbol = ''WETH'', tokenAddress = ''0xA1''\<rparr>,
                       \<lparr>symbol = ''ETH'', tokenAddress = ''0xA2''\<rparr>],
        outputTokens = [\<lparr>symbol = ''ETH'', tokenAddress = ''0xA3''\<rparr>]\<rparr>"
      "\<lparr>symbol = ''ETH'', tokenAddress = ''0xA2''\<rparr>"
      "\<lparr>chainId = 421614,
        inputTokens = [\<lparr>symbol = ''ETH'', tokenAddress = ''0xB1''\<rparr>,
                       \<lparr>symbol = ''WETH'', tokenAddress = ''0xB2''\<rparr>],
        outputTokens = [\<lparr>symbol = ''WETH'', tokenAddress = ''0xB3''\<rparr>]\<rparr>"
      "\<lparr>symbol = ''WETH'', tokenAddress = ''0xB2''\<rparr>"]
  by (simp add: demoWorld_def demoChains_def originChain_def destinationChain_def
      sepolia_def arbitrumSepolia_def originTokenSymbol_def destTokenSymbol_def)

subsection \<open>The progress observer\<close>

text \<open>
  Claim C5. On a notification whose status is not \<open>txSuccess\<close> the observer logs the step
  with its status, nothing else, and returns without throwing: none of the lines of the
  approve, deposit and fill branches is logged. So the execution goes on the way it does
  when the observer returns, and a run whose execution starts with such a notification
  continues after the failure line with the rest of the execution and the report of its
  result.
\<close>

theorem non_success_notification_only_logs_failure:
  assumes "status progress \<noteq> ''txSuccess''"
  shows "onProgressCallback progress =
           ([Log (StepFailed (step progress) (status progress))], Inr ())
         \<and> filter payload_log (fst (onProgressCallback progress)) = []
         \<and> awaitExecution (Notify progress onReturn onThrow) =
             prepend [Log (StepFailed (step progress) (status progress))]
               (awaitExecution onReturn)
         \<and> (snd (preValidate W) = Inr () \<longrightarrow> snd (getQuote W) = Inr quote \<longrightarrow>
              executeQuote W wc (deposit quote) = Notify progress onReturn onThrow \<longrightarrow>
              bridge W wc =
                prepend (fst (preValidate W) @ CreateAcrossClient # fst (getQuote W)
                   @ [ExecuteQuote wc (deposit quote),
                      Log (StepFailed (step progress) (status progress))])
                  (andThen (awaitExecution onReturn) reportResult))"
proof -
  have cb: "onProgressCallback progress =
      ([Log (StepFailed (step progress) (status progress))], Inr ())"
    using assms by (simp add: onProgressCallback_def console_log_def emit_def)
  have aw: "awaitExecution (Notify progress onReturn onThrow) =
      prepend [Log (StepFailed (step progress) (status progress))] (awaitExecution onReturn)"
    by (simp add: cb)
  have "bridge W wc =
      prepend (fst (preValidate W) @ CreateAcrossClient # fst (getQuote W)
         @ [ExecuteQuote wc (deposit quote),
            Log (StepFailed (step progress) (status progress))])
        (andThen (awaitExecution onReturn) reportResult)"
    if validated: "snd (preValidate W) = Inr ()" and quoted: "snd (getQuote W) = Inr quote"
      and ex: "executeQuote W wc (deposit quote) = Notify progress onReturn onThrow"
  proof -
    obtain t1 where pre: "preValidate W = (t1, Inr ())"
      using validated by (cases "preValidate W") simp
    obtain t2 where quo: "getQuote W = (t2, Inr quote)"
      using quoted by (cases "getQuote W") simp
    have "bridge W wc =
        prepend (t1 @ CreateAcrossClient # t2 @ [ExecuteQuote wc (deposit quote)])
          (andThen (awaitExecution (Notify progress onReturn onThrow)) reportResult)"
      by (simp add: bridge_eq pre quo ex del: awaitExecution.simps)
    also have "\<dots> =
        prepend (t1 @ CreateAcrossClient # t2
           @ [ExecuteQuote wc (deposit quote),
              Log (StepFailed (step progress) (status progress))])
          (andThen (awaitExecution onReturn) reportResult)"
      unfolding aw by (simp add: prepend_def andThen_def split: prod.splits sum.splits)
    finally show ?thesis
      by (simp add: pre quo)
  qed
  with cb aw show ?thesis
    by simp
qed

text \<open>
  The demo run, whose first notification is a pending deposit: the failure line, then the
  lines of the two later notifications.
\<close>

theorem non_success_notification_witness:
  "bridge (demoWorld 1000000000000000000)
      \<lparr>walletAccount = \<lparr>address = ''0xF2''\<rparr>, walletChain = originChain\<rparr> =
     ([Log (ValidatingBalance (Some ''0xF1'')), GetBalance (Some ''0xF1''),
       Log (WeiBalance 1000000000000000000), Log (BalanceInEth 1),
       CreateAcrossClient, GetSupportedChains, Log RequestingQuote,
       GetQuote (intentOf ''0xA2'' ''0xB2'')] @ quoteLogs demoQuote @
      [ExecuteQuote \<lparr>walletAccount = \<lparr>address = ''0xF2''\<rparr>, walletChain = originChain\<rparr>
         (deposit demoQuote),
       Log (StepFailed ''deposit'' ''txPending''),
       Log (DepositIdReceived (Some 7)), Log (OrderFilled (Some 1700000000))],
      Inl (TypeError ''Do not know how to serialize a BigInt''))"
proof -
  let ?p = "\<lparr>step = ''deposit'', status = ''txPending'', txReceipt = None, depositId = None,
        fillTxTimestamp = None, actionSuccess = None\<rparr>"
  let ?wc = "\<lparr>walletAccount = \<lparr>address = ''0xF2''\<rparr>, walletChain = originChain\<rparr>"
  let ?R = "Resolve \<lparr>resultError = Some ''observer threw'', resultDepositId = None,
                 depositTxReceipt = None, fillTxReceipt = None\<rparr>"
  have st: "status ?p \<noteq> ''txSuccess''"
    by simp
  have pre: "snd (preValidate (demoWorld 1000000000000000000)) = Inr ()"
    by (simp add: demo_preValidate)
  have quo: "snd (getQuote (demoWorld 1000000000000000000)) = Inr demoQuote"
    by (simp add: demo_getQuote)
  have ex: "executeQuote (demoWorld 1000000000000000000) ?wc (deposit demoQuote) =
      Notify ?p (deliver (tl demoProgress) (Resolve demoResult)) ?R"
    by (simp add: demoWorld_def demoProgress_def)
  have rest: "andThen (awaitExecution (deliver (tl demoProgress) (Resolve demoResult)))
      reportResult =
     ([Log (DepositIdReceived (Some 7)), Log (OrderFilled (Some 1700000000))],
      Inl (TypeError ''Do not know how to serialize a BigInt''))"
    by (simp add: demoProgress_def demoResult_def onProgressCallback_def console_log_def
        emit_def prepend_def ret_def andThen_def reportResult_def resultHoldsBigInt_def)
  show ?thesis
    using non_success_notification_only_logs_failure
      [OF st, of "deliver (tl demoProgress) (Resolve demoResult)" ?R
        "demoWorld 1000000000000000000" demoQuote ?wc]
      pre quo ex
    by (simp add: rest demo_preValidate demo_getQuote prepend_def)
qed

subsection \<open>The terminal result\<close>

text \<open>
  In a run whose execution resolves to a result, the terminal line is the failure line when
  the result carries an error. When it carries none, the result is logged if it holds no
  bigint; if it holds one, \<^verbatim>\<open>JSON.stringify\<close> throws, no terminal line is logged and the
  run ends with the \<open>TypeError\<close>. The execution is requested once in each case.
\<close>

lemma terminal_report:
  assumes "snd (preValidate W) = Inr ()"
    and "snd (getQuote W) = Inr quote"
    and "snd (awaitExecution (executeQuote W wc (deposit quote))) = Inr bridgeResult"
  shows "filter is_terminal_log (fst (bridge W wc)) =
           (case resultError bridgeResult of
              Some err \<Rightarrow> [Log (BridgeFailed err)]
            | None \<Rightarrow>
                if resultHoldsBigInt bridgeResult then []
                else [Log (BridgeResult bridgeResult)])
         \<and> snd (bridge W wc) =
           (if resultError bridgeResult = None \<and> resultHoldsBigInt bridgeResult
            then Inl (TypeError ''Do not know how to serialize a BigInt'') else Inr ())
         \<and> filter is_execution (fst (bridge W wc)) = [ExecuteQuote wc (deposit quote)]"
proof -
  obtain t1 where pre: "preValidate W = (t1, Inr ())"
    using assms(1) by (cases "preValidate W") simp
  obtain t2 where quo: "getQuote W = (t2, Inr quote)"
    using assms(2) by (cases "getQuote W") simp
  obtain t3 where aw: "awaitExecution (executeQuote W wc (deposit quote)) =
      (t3, Inr bridgeResult)"
    using assms(3) by (cases "awaitExecution (executeQuote W wc (deposit quote))") simp
  have t1: "filter is_terminal_log t1 = []" "filter is_execution t1 = []"
    using preValidate_not_terminal [of W] preValidate_not_execution [of W]
    by (simp_all add: pre)
  have t2: "filter is_terminal_log t2 = []" "filter is_execution t2 = []"
    using getQuote_not_terminal [of W] getQuote_not_execution [of W]
    by (simp_all add: quo)
  have t3: "filter is_terminal_log t3 = []" "filter is_execution t3 = []"
    using awaitExecution_not_terminal [of "executeQuote W wc (deposit quote)"]
      awaitExecution_filter [of is_execution "executeQuote W wc (deposit quote)"]
    by (simp_all add: aw)
  have br: "bridge W wc =
      (t1 @ CreateAcrossClient # t2 @ ExecuteQuote wc (deposit quote) # t3
         @ fst (reportResult bridgeResult), snd (reportResult bridgeResult))"
    by (simp add: bridge_eq pre quo aw prepend_def andThen_def split: prod.splits)
  show ?thesis
    by (simp add: br t1 t2 t3 reportResult_def split: option.splits)
qed

text \<open>
  Claim C7. The claim asks for exactly one terminal line for every result. In the demo run
  the execution resolves to the result of a completed bridge, without error field and with
  its deposit id and receipts; the script logs no terminal line and ends with the
  \<open>TypeError\<close> of \<^verbatim>\<open>JSON.stringify\<close>.
\<close>

theorem completed_result_is_not_logged:
  "snd (awaitExecution (executeQuote (demoWorld 1000000000000000000)
      \<lparr>walletAccount = \<lparr>address = ''0xF2''\<rparr>, walletChain = originChain\<rparr>
      (deposit demoQuote))) = Inr demoResult
   \<and> resultError demoResult = None
   \<and> filter is_terminal_log (fst (bridge (demoWorld 1000000000000000000)
        \<lparr>walletAccount = \<lparr>address = ''0xF2''\<rparr>, walletChain = originChain\<rparr>)) = []
   \<and> snd (bridge (demoWorld 1000000000000000000)
        \<lparr>walletAccount = \<lparr>address = ''0xF2''\<rparr>, walletChain = originChain\<rparr>) =
       Inl (TypeError ''Do not know how to serialize a BigInt'')"
  by (simp add: demo_bridge quoteLogs_def)
    (simp add: demoWorld_def demoProgress_def demoResult_def onProgressCallback_def
      console_log_def emit_def prepend_def ret_def)

subsection \<open>One quote, one execution\<close>

text \<open>
  Claim C8. Projected on quote requests and executions, the trace of every run is empty, or
  one quote request that failed, or one quote request followed by one execution whose
  deposit is the deposit of the quote that the request returned. So an execution is always
  preceded by the creation of its quote, takes the deposit as it is, and happens once.
\<close>

theorem quote_created_before_single_execution:
  "filter quote_or_execution (fst (bridge W wc)) = []
   \<or> (\<exists>intent m. getQuoteRequest W intent = Inl m
         \<and> filter quote_or_execution (fst (bridge W wc)) = [GetQuote intent])
   \<or> (\<exists>intent quote. getQuoteRequest W intent = Inr quote
         \<and> snd (getQuote W) = Inr quote
         \<and> filter quote_or_execution (fst (bridge W wc)) =
             [GetQuote intent, ExecuteQuote wc (deposit quote)])"
proof -
  obtain t1 r1 where pre: "preValidate W = (t1, r1)"
    by (cases "preValidate W")
  obtain t2 r2 where quo: "getQuote W = (t2, r2)"
    by (cases "getQuote W")
  have t1: "filter quote_or_execution t1 = []"
    using preValidate_no_execution [of W] by (simp add: pre)
  show ?thesis
  proof (cases r1)
    case (Inl e)
    then show ?thesis
      by (simp add: bridge_eq pre t1)
  next
    case validated: (Inr u)
    show ?thesis
    proof (cases r2)
      case (Inl e)
      then have "filter quote_or_execution t2 = []
          \<or> (\<exists>intent m. getQuoteRequest W intent = Inl m
                \<and> filter quote_or_execution t2 = [GetQuote intent])"
        using getQuote_failed_shape [of W e] by (simp add: quo)
      then show ?thesis
        using validated Inl by (auto simp: bridge_eq pre quo t1)
    next
      case (Inr quote)
      then obtain intent where intent: "getQuoteRequest W intent = Inr quote"
          "filter quote_or_execution t2 = [GetQuote intent]"
        using getQuote_returned_shape [of W quote] by (auto simp: quo)
      have ex: "filter quote_or_execution
          (fst (andThen (awaitExecution (executeQuote W wc (deposit quote))) reportResult)) = []"
        by (rule execution_filter) simp
      have "filter quote_or_execution (fst (bridge W wc)) =
          [GetQuote intent, ExecuteQuote wc (deposit quote)]"
        using validated Inr
        by (simp add: bridge_eq pre quo ex t1 intent prepend_def)
      then show ?thesis
        using intent Inr by (auto simp: quo)
    qed
  qed
qed

text \<open>The demo run: the quote request, then the execution of the deposit it returned.\<close>

theorem quote_before_execution_witness:
  "filter quote_or_execution (fst (bridge (demoWorld 1000000000000000000)
      \<lparr>walletAccount = \<lparr>address = ''0xF2''\<rparr>, walletChain = originChain\<rparr>)) =
     [GetQuote (intentOf ''0xA2'' ''0xB2''),
      ExecuteQuote \<lparr>walletAccount = \<lparr>address = ''0xF2''\<rparr>, walletChain = originChain\<rparr>
        (deposit demoQuote)]
   \<and> getQuoteRequest (demoWorld 1000000000000000000) (intentOf ''0xA2'' ''0xB2'') =
       Inr demoQuote"
proof -
  have tr: "filter quote_or_execution (fst (bridge (demoWorld 1000000000000000000)
      \<lparr>walletAccount = \<lparr>address = ''0xF2''\<rparr>, walletChain = originChain\<rparr>)) =
     [GetQuote (intentOf ''0xA2'' ''0xB2''),
      ExecuteQuote \<lparr>walletAccount = \<lparr>address = ''0xF2''\<rparr>, walletChain = originChain\<rparr>
        (deposit demoQuote)]"
    by (simp add: demo_bridge quoteLogs_def)
  have rq: "getQuoteRequest (demoWorld 1000000000000000000) (intentOf ''0xA2'' ''0xB2'') =
       Inr demoQuote"
    by (simp add: demoWorld_def)
  show ?thesis
    using quote_created_before_single_execution
      [of "demoWorld 1000000000000000000"
        "\<lparr>walletAccount = \<lparr>address = ''0xF2''\<rparr>, walletChain = originChain\<rparr>"]
      tr rq
    by simp
qed

subsection \<open>Whose balance is checked\<close>

lemma bridge_balance_query:
  "filter is_balance_query (fst (bridge W wc)) = [GetBalance (getPubKey W)]"
proof -
  obtain t1 r1 where pre: "preValidate W = (t1, r1)"
    by (cases "preValidate W")
  obtain t2 r2 where quo: "getQuote W = (t2, r2)"
    by (cases "getQuote W")
  have t: "filter is_balance_query t1 = [GetBalance (getPubKey W)]"
      "filter is_balance_query t2 = []"
    using preValidate_balance_query [of W] getQuote_no_balance_query [of W]
    by (simp_all add: pre quo)
  have ex: "filter is_balance_query (fst (andThen (awaitExecution x) reportResult)) = []"
    for x
    by (rule execution_filter) simp
  show ?thesis
    by (simp add: bridge_eq pre quo t ex prepend_def split: sum.splits)
qed

lemma bridge_execution:
  "filter is_execution (fst (bridge W wc)) = []
   \<or> (\<exists>d. filter is_execution (fst (bridge W wc)) = [ExecuteQuote wc d])"
proof -
  obtain t1 r1 where pre: "preValidate W = (t1, r1)"
    by (cases "preValidate W")
  obtain t2 r2 where quo: "getQuote W = (t2, r2)"
    by (cases "getQuote W")
  have t: "filter is_execution t1 = []" "filter is_execution t2 = []"
    using preValidate_not_execution [of W] getQuote_not_execution [of W]
    by (simp_all add: pre quo)
  have ex: "filter is_execution (fst (andThen (awaitExecution x) reportResult)) = []"
    for x
    by (rule execution_filter) simp
  show ?thesis
    by (simp add: bridge_eq pre quo t ex prepend_def split: sum.splits)
qed

text \<open>
  Claim C9. In a run whose account derivation succeeds, the one balance query is for the
  address in \<open>PUBLIC_KEY\<close>, and an execution, if there is one, uses the wallet client of the
  account derived from \<open>PRIVATE_KEY\<close>. When the two addresses differ, the address whose
  balance was checked is not the address of the account that executes.
\<close>

theorem balance_checked_for_public_key_not_signer:
  assumes "privateKeyToAccount W
      (''0x'' @ (case PRIVATE_KEY W of None \<Rightarrow> ''undefined'' | Some k \<Rightarrow> k)) = Inr account"
  shows "filter is_balance_query (fst (main W)) = [GetBalance (PUBLIC_KEY W)]
     \<and> (filter is_execution (fst (main W)) = []
        \<or> (\<exists>d. filter is_execution (fst (main W)) =
               [ExecuteQuote \<lparr>walletAccount = account, walletChain = originChain\<rparr> d]))
     \<and> (PUBLIC_KEY W \<noteq> Some (address account) \<longrightarrow>
          (\<forall>a wc d. GetBalance a \<in> set (fst (main W)) \<longrightarrow>
             ExecuteQuote wc d \<in> set (fst (main W)) \<longrightarrow>
             a \<noteq> Some (address (walletAccount wc))))"
proof -
  let ?wc = "\<lparr>walletAccount = account, walletChain = originChain\<rparr>"
  have run: "fst (main W) =
      [Log (LoadedInfuraKey (INFURA_PROJECT_KEY W)), Log (LoadedPubKey (PUBLIC_KEY W)),
       Log (LoadedPK (PRIVATE_KEY W)), Log (OriginChainSelected ''Sepolia''),
       Log (DestinationChainSelected ''Arbitrum Sepolia'')] @ fst (bridge W ?wc)"
    using assms by (simp add: main_eq)
  have bq: "filter is_balance_query (fst (main W)) = [GetBalance (PUBLIC_KEY W)]"
    using bridge_balance_query [of W ?wc]
    by (simp add: run getPubKey_def)
  have ex: "filter is_execution (fst (main W)) = []
        \<or> (\<exists>d. filter is_execution (fst (main W)) = [ExecuteQuote ?wc d])"
    using bridge_execution [of W ?wc]
    by (simp add: run)
  have "a \<noteq> Some (address (walletAccount wc))"
    if "PUBLIC_KEY W \<noteq> Some (address account)"
      and a: "GetBalance a \<in> set (fst (main W))"
      and e: "ExecuteQuote wc d \<in> set (fst (main W))"
    for a wc d
  proof -
    from a have "GetBalance a \<in> set (filter is_balance_query (fst (main W)))"
      by simp
    then have "a = PUBLIC_KEY W"
      by (simp add: bq)
    moreover from e have mem: "ExecuteQuote wc d \<in> set (filter is_execution (fst (main W)))"
      by simp
    from ex have "wc = ?wc"
    proof (elim disjE exE)
      assume none: "filter is_execution (fst (main W)) = []"
      from mem show ?thesis
        unfolding none by simp
    next
      fix d'
      assume one: "filter is_execution (fst (main W)) = [ExecuteQuote ?wc d']"
      from mem show ?thesis
        unfolding one by simp
    qed
    ultimately show ?thesis
      using that(1) by simp
  qed
  with bq ex show ?thesis
    by blast
qed

text \<open>The demo world: the balance of \<open>0xF1\<close> is checked, \<open>0xF2\<close> executes.\<close>

theorem balance_checked_witness:
  "filter is_balance_query (fst (main (demoWorld 1000000000000000000))) =
     [GetBalance (Some ''0xF1'')]
   \<and> filter is_execution (fst (main (demoWorld 1000000000000000000))) =
     [ExecuteQuote \<lparr>walletAccount = \<lparr>address = ''0xF2''\<rparr>, walletChain = originChain\<rparr>
        (deposit demoQuote)]
   \<and> PUBLIC_KEY (demoWorld 1000000000000000000) \<noteq> Some (address \<lparr>address = ''0xF2''\<rparr>)"
proof -
  have key: "privateKeyToAccount (demoWorld 1000000000000000000)
      (''0x'' @ (case PRIVATE_KEY (demoWorld 1000000000000000000) of
         None \<Rightarrow> ''undefined'' | Some k \<Rightarrow> k)) = Inr \<lparr>address = ''0xF2''\<rparr>"
    by (simp add: demoWorld_def)
  have run: "fst (main (demoWorld 1000000000000000000)) =
      [Log (LoadedInfuraKey (Some ''infura'')), Log (LoadedPubKey (Some ''0xF1'')),
       Log (LoadedPK (Some demoKey)), Log (OriginChainSelected ''Sepolia''),
       Log (DestinationChainSelected ''Arbitrum Sepolia'')]
      @ fst (bridge (demoWorld 1000000000000000000)
         \<lparr>walletAccount = \<lparr>address = ''0xF2''\<rparr>, walletChain = originChain\<rparr>)"
    using key by (simp add: main_eq) (simp add: demoWorld_def)
  have ex: "filter is_execution (fst (main (demoWorld 1000000000000000000))) =
     [ExecuteQuote \<lparr>walletAccount = \<lparr>address = ''0xF2''\<rparr>, walletChain = originChain\<rparr>
        (deposit demoQuote)]"
    by (simp add: run demo_bridge quoteLogs_def)
  have pk: "PUBLIC_KEY (demoWorld 1000000000000000000) \<noteq> Some (address \<lparr>address = ''0xF2''\<rparr>)"
    by (simp add: demoWorld_def)
  have pk': "PUBLIC_KEY (demoWorld 1000000000000000000) = Some ''0xF1''"
    by (simp add: demoWorld_def)
  show ?thesis
    using balance_checked_for_public_key_not_signer [OF key] pk ex
    by (simp add: pk')
qed

subsection \<open>The destination token comes from the input-token list\<close>

lemma find_chain_outputTokens:
  "find (\<lambda>x. chainId x = n) (map (\<lambda>c. c\<lparr>outputTokens := f c\<rparr>) xs) =
     map_option (\<lambda>c. c\<lparr>outputTokens := f c\<rparr>) (find (\<lambda>x. chainId x = n) xs)"
  by (induction xs) simp_all

text \<open>
  Claim C10. With the origin chain, the origin token and the destination chain found in the
  supported-chains answer, the destination token is looked up in the \<open>inputTokens\<close> list of
  the destination chain entry: when the destination symbol is found there, the one quote
  request that \<open>getQuote\<close> submits has the address of the first such entry as its output
  token; when it is not found there, \<open>getQuote\<close> submits no request and ends with the
  \<open>TypeError\<close> of the address read. The \<open>outputTokens\<close> lists are never read: replacing
  them in the answer leaves \<open>getQuote\<close> unchanged.
\<close>

theorem destination_token_resolved_from_inputTokens:
  assumes "getSupportedChains W = Inr supported"
    and "find (\<lambda>x. chainId x = chain_id originChain) supported = Some oc"
    and "find (\<lambda>x. symbol x = originTokenSymbol) (inputTokens oc) = Some ot"
    and "find (\<lambda>x. chainId x = chain_id destinationChain) supported = Some dc"
  shows "(\<forall>dt. find (\<lambda>x. symbol x = destTokenSymbol) (inputTokens dc) = Some dt \<longrightarrow>
            filter is_quote_request (fst (getQuote W)) =
              [GetQuote \<lparr>route = \<lparr>originChainId = chain_id originChain,
                                   destinationChainId = chain_id destinationChain,
                                   inputToken = tokenAddress ot,
                                   outputToken = tokenAddress dt\<rparr>,
                         inputAmount = 200000000000000\<rparr>])
         \<and> (find (\<lambda>x. symbol x = destTokenSymbol) (inputTokens dc) = None \<longrightarrow>
              getQuote W = ([GetSupportedChains], Inl (TypeError ''address'')))
         \<and> getQuote (W\<lparr>getSupportedChains :=
               Inr (map (\<lambda>c. c\<lparr>outputTokens := f c\<rparr>) supported)\<rparr>) = getQuote W"
proof -
  have found: "filter is_quote_request (fst (getQuote W)) =
              [GetQuote \<lparr>route = \<lparr>originChainId = chain_id originChain,
                                   destinationChainId = chain_id destinationChain,
                                   inputToken = tokenAddress ot,
                                   outputToken = tokenAddress dt\<rparr>,
                         inputAmount = 200000000000000\<rparr>]"
    if "find (\<lambda>x. symbol x = destTokenSymbol) (inputTokens dc) = Some dt" for dt
    using assms that
    by (simp add: getQuote_eq originChain_def destinationChain_def sepolia_def
        arbitrumSepolia_def originTokenSymbol_def destTokenSymbol_def intentOf_def
        quoteLogs_def split: sum.splits)
  have missing: "getQuote W = ([GetSupportedChains], Inl (TypeError ''address''))"
    if "find (\<lambda>x. symbol x = destTokenSymbol) (inputTokens dc) = None"
    using assms that
    by (simp add: getQuote_eq originChain_def destinationChain_def sepolia_def
        arbitrumSepolia_def originTokenSymbol_def destTokenSymbol_def)
  have same: "getQuote (W\<lparr>getSupportedChains :=
               Inr (map (\<lambda>c. c\<lparr>outputTokens := f c\<rparr>) supported)\<rparr>) = getQuote W"
    using assms(1)
    by (auto simp: getQuote_eq find_chain_outputTokens split: sum.splits option.splits)
  from found missing same show ?thesis
    by blast
qed

text \<open>
  The demo chain list with every \<open>outputTokens\<close> list replaced by a list that has \<open>WETH\<close>
  at \<open>0xC9\<close>: the request still carries \<open>0xB2\<close>, the address among the input tokens of
  the destination chain.
\<close>

theorem destination_token_witness:
  "filter is_quote_request (fst (getQuote ((demoWorld 1000000000000000000)
      \<lparr>getSupportedChains := Inr (map (\<lambda>c. c\<lparr>outputTokens :=
          [\<lparr>symbol = ''WETH'', tokenAddress = ''0xC9''\<rparr>]\<rparr>) demoChains)\<rparr>))) =
     [GetQuote \<lparr>route = \<lparr>originChainId = 11155111, destinationChainId = 421614,
                          inputToken = ''0xA2'', outputToken = ''0xB2''\<rparr>,
                inputAmount = 200000000000000\<rparr>]"
  using destination_token_resolved_from_inputTokens
    [of "demoWorld 1000000000000000000" demoChains
      "\<lparr>chainId = 11155111,
        inputTokens = [\<lparr>symbol = ''WETH'', tokenAddress = ''0xA1''\<rparr>,
                       \<lparr>symbol = ''ETH'', tokenAddress = ''0xA2''\<rparr>],
        outputTokens = [\<lparr>symbol = ''ETH'', tokenAddress = ''0xA3''\<rparr>]\<rparr>"
      "\<lparr>symbol = ''ETH'', tokenAddress = ''0xA2''\<rparr>"
      "\<lparr>chainId = 421614,
        inputTokens = [\<lparr>symbol = ''ETH'', tokenAddress = ''0xB1''\<rparr>,
                       \<lparr>symbol = ''WETH'', tokenAddress = ''0xB2''\<rparr>],
        outputTokens = [\<lparr>symbol = ''WETH'', tokenAddress = ''0xB3''\<rparr>]\<rparr>"
      "\<lambda>_. [\<lparr>symbol = ''WETH'', tokenAddress = ''0xC9''\<rparr>]"]
  by (simp add: demoWorld_def demoChains_def originChain_def destinationChain_def
      sepolia_def arbitrumSepolia_def originTokenSymbol_def destTokenSymbol_def)

subsection \<open>An unset private key\<close>

text \<open>
  Claim C6, as amended. The script does not test \<open>PRIVATE_KEY\<close>. When it is unset, the
  account derivation is called on \<open>0xundefined\<close>; when that call throws, the exception
  ends the run after the five start-up lines, before any balance query, client creation,
  quote or execution. The error is the one of the derivation.
\<close>

theorem missing_private_key_fails_in_account_derivation:
  assumes "PRIVATE_KEY W = None"
    and "privateKeyToAccount W ''0xundefined'' = Inl m"
  shows "main W =
           ([Log (LoadedInfuraKey (INFURA_PROJECT_KEY W)), Log (LoadedPubKey (PUBLIC_KEY W)),
             Log (LoadedPK None), Log (OriginChainSelected (chain_name originChain)),
             Log (DestinationChainSelected (chain_name destinationChain))],
            Inl (LibraryError m))
         \<and> filter network_effect (fst (main W)) = []"
  using assms
  by (simp add: main_eq originChain_def destinationChain_def sepolia_def arbitrumSepolia_def)

text \<open>A world without private key and without project key.\<close>

theorem missing_private_key_witness:
  "main ((demoWorld 0)\<lparr>PRIVATE_KEY := None, INFURA_PROJECT_KEY := None\<rparr>) =
     ([Log (LoadedInfuraKey None), Log (LoadedPubKey (Some ''0xF1'')),
       Log (LoadedPK None), Log (OriginChainSelected ''Sepolia''),
       Log (DestinationChainSelected ''Arbitrum Sepolia'')],
      Inl (LibraryError ''invalid private key''))"
  using missing_private_key_fails_in_account_derivation
    [of "(demoWorld 0)\<lparr>PRIVATE_KEY := None, INFURA_PROJECT_KEY := None\<rparr>"
      "''invalid private key''"]
  by (simp add: demoWorld_def demoKey_def originChain_def destinationChain_def sepolia_def
      arbitrumSepolia_def)

text \<open>
  Claim C6 as stated asks for a logged message and a missing-credential condition. In the
  demo world without private key the run ends with the error of the account derivation,
  and its trace is the five start-up lines: no line reports a failure.
\<close>

theorem missing_private_key_counterexample:
  "snd (main ((demoWorld 1000000000000000000)\<lparr>PRIVATE_KEY := None\<rparr>)) =
     Inl (LibraryError ''invalid private key'')
   \<and> filter failure_report
       (fst (main ((demoWorld 1000000000000000000)\<lparr>PRIVATE_KEY := None\<rparr>))) = []
   \<and> fst (main ((demoWorld 1000000000000000000)\<lparr>PRIVATE_KEY := None\<rparr>)) =
       [Log (LoadedInfuraKey (Some ''infura'')), Log (LoadedPubKey (Some ''0xF1'')),
        Log (LoadedPK None), Log (OriginChainSelected ''Sepolia''),
        Log (DestinationChainSelected ''Arbitrum Sepolia'')]"
  by (simp add: main_eq demoWorld_def demoKey_def)

end
